theory Spec2Isabelle
  imports Main "HOL-Library.Char_ord" "HOL-Library.List_Lexorder" "HOL-Library.Product_Lexorder"
begin

section \<open>Strings of the program\<close>

text \<open>
  The program is \<^verbatim>\<open>medical_diag.py\<close>. Its strings are Python \<^verbatim>\<open>str\<close> values, sequences
  of code points. They are modelled as \<^typ>\<open>string\<close>, one \<^typ>\<open>char\<close> per code point, which
  covers the code points U+0000 to U+00FF (every string of the knowledge base is ASCII).
  String comparison is Python's: lexicographic on code points, which is the order of
  \<^verbatim>\<open>List_Lexorder\<close> over \<^verbatim>\<open>Char_ord\<close>; tuples compare lexicographically
  (\<^verbatim>\<open>Product_Lexorder\<close>).
\<close>

text \<open>The code points below U+0100 that \<^verbatim>\<open>str.strip()\<close> treats as whitespace:
  U+0009 to U+000D, U+001C to U+0020, U+0085 and U+00A0.\<close>

definition isspace :: "char \<Rightarrow> bool" where
  "isspace c = (let n = (of_char c :: nat) in
     (9 \<le> n \<and> n \<le> 13) \<or> (28 \<le> n \<and> n \<le> 32) \<or> n = 133 \<or> n = 160)"

text \<open>\<^verbatim>\<open>str.lower()\<close> on one code point below U+0100: A to Z and the capital letters
  U+00C0 to U+00DE (U+00D7, the multiplication sign, apart) move up by 32.\<close>

definition lower_char :: "char \<Rightarrow> char" where
  "lower_char c = (let n = (of_char c :: nat) in
     if (65 \<le> n \<and> n \<le> 90) \<or> (192 \<le> n \<and> n \<le> 222 \<and> n \<noteq> 215)
     then char_of (n + 32) else c)"

definition lower :: "string \<Rightarrow> string" where
  "lower s = map lower_char s"

definition lstrip :: "string \<Rightarrow> string" where
  "lstrip s = dropWhile isspace s"

definition rstrip :: "string \<Rightarrow> string" where
  "rstrip s = rev (dropWhile isspace (rev s))"

definition strip :: "string \<Rightarrow> string" where
  "strip s = rstrip (lstrip s)"

text \<open>\<^verbatim>\<open>s.replace(old, new)\<close> for one-character \<^verbatim>\<open>old\<close> and \<^verbatim>\<open>new\<close>: every occurrence
  of \<^verbatim>\<open>old\<close> becomes \<^verbatim>\<open>new\<close>, one for one.\<close>

definition replace :: "char \<Rightarrow> char \<Rightarrow> string \<Rightarrow> string" where
  "replace old new s = map (\<lambda>c. if c = old then new else c) s"

section \<open>Knowledge base\<close>

text \<open>A \<^verbatim>\<open>dict\<close> iterates in insertion order, so \<^verbatim>\<open>DISEASE_RULES\<close> is an association
  list in the order of the literal; its values are sets.\<close>

definition DISEASE_RULES :: "(string \<times> string set) list" where
  "DISEASE_RULES = [
    (''flu'', set [''fever'', ''cough'', ''body_ache'', ''fatigue'']),
    (''common cold'', set [''cough'', ''sore_throat'', ''runny_nose'']),
    (''asthma'', set [''shortness_breath'', ''wheezing'', ''cough'']),
    (''covid-19'', set [''fever'', ''loss_smell'', ''cough'', ''sore_throat'']),
    (''pneumonia'', set [''fever'', ''cough'', ''shortness_breath'', ''chest_pain'']),
    (''migraine'', set [''headache'', ''blurred_vision'', ''nausea'']),
    (''diabetes'', set [''fatigue'', ''thirst'', ''frequent_urination'', ''blurred_vision'']),
    (''hypertension'', set [''headache'', ''dizziness'', ''blurred_vision'']),
    (''arthritis'', set [''joint_pain'', ''stiffness'', ''swelling'']),
    (''appendicitis'', set [''abdominal_pain'', ''vomiting'', ''loss_appetite'', ''fever'']),
    (''tuberculosis'', set [''chronic_cough'', ''weight_loss'', ''night_sweats'', ''chest_pain'']),
    (''depression'', set [''fatigue'', ''loss_interest'', ''sadness'', ''sleep_disturbance'']),
    (''conjunctivitis'', set [''red_eyes'', ''itchy_eyes'', ''eye_discharge'']),
    (''food_poisoning'', set [''vomiting'', ''diarrhea'', ''nausea'', ''abdominal_pain''])]"

definition DISEASE_TO_SPECIALIST :: "(string \<times> string) list" where
  "DISEASE_TO_SPECIALIST = [
    (''flu'', ''General Physician''),
    (''common cold'', ''General Physician''),
    (''diabetes'', ''Endocrinologist''),
    (''hypertension'', ''Cardiologist''),
    (''asthma'', ''Pulmonologist''),
    (''pneumonia'', ''Pulmonologist''),
    (''migraine'', ''Neurologist''),
    (''arthritis'', ''Rheumatologist''),
    (''covid-19'', ''Infectious Disease Specialist''),
    (''appendicitis'', ''General Surgeon''),
    (''tuberculosis'', ''Pulmonologist''),
    (''depression'', ''Psychiatrist''),
    (''conjunctivitis'', ''Ophthalmologist''),
    (''food_poisoning'', ''Gastroenterologist'')]"

text \<open>\<^verbatim>\<open>ALL_SYMPTOMS = sorted({s for sset in DISEASE_RULES.values() for s in sset})\<close>\<close>

definition ALL_SYMPTOMS :: "string list" where
  "ALL_SYMPTOMS = sorted_list_of_set (\<Union> (set (map snd DISEASE_RULES)))"

section \<open>Diagnosis\<close>

text \<open>The element expression of the set comprehension in \<^verbatim>\<open>diagnose\<close>:
  \<^verbatim>\<open>s.strip().lower().replace(" ", "_")\<close>.\<close>

definition normalize :: "string \<Rightarrow> string" where
  "normalize s = replace (CHR '' '') (CHR ''_'') (lower (strip s))"

text \<open>\<^verbatim>\<open>{s.strip().lower().replace(" ", "_") for s in symptoms if s.strip()}\<close>:
  an empty string is falsy.\<close>

definition tokens :: "string list \<Rightarrow> string set" where
  "tokens symptoms = set (map normalize (filter (\<lambda>s. strip s \<noteq> []) symptoms))"

text \<open>\<^verbatim>\<open>[(len(sset & rules), dis) for dis, rules in DISEASE_RULES.items() if len(sset & rules) > 0]\<close>\<close>

definition scores :: "string set \<Rightarrow> (nat \<times> string) list" where
  "scores sset = map (\<lambda>(dis, rules). (card (sset \<inter> rules), dis))
     (filter (\<lambda>(dis, rules). card (sset \<inter> rules) > 0) DISEASE_RULES)"

text \<open>\<^verbatim>\<open>sorted(xs, reverse=True)\<close> is a stable sort into descending order: elements that
  compare equal keep their order. Python obtains it by reversing, sorting stably and
  reversing again.\<close>

definition sorted_reverse :: "('a::linorder) list \<Rightarrow> 'a list" where
  "sorted_reverse xs = rev (sort_key (\<lambda>x. x) (rev xs))"

text \<open>\<^verbatim>\<open>DISEASE_TO_SPECIALIST.get(disease, "Consult specialist")\<close>\<close>

definition specialist :: "string \<Rightarrow> string" where
  "specialist disease = (case map_of DISEASE_TO_SPECIALIST disease of
     Some sp \<Rightarrow> sp | None \<Rightarrow> ''Consult specialist'')"

text \<open>
  \<^verbatim>\<open>diagnose\<close> returns nothing and prints. What it prints is its result here: one of the
  two messages (the text handed to the styling function \<^verbatim>\<open>c\<close>, which adds terminal
  colour codes around it or nothing), or the rows of the loop over \<^verbatim>\<open>top\<close>, each with the
  number of matches, the disease and the specialist.
\<close>

datatype display = Message string | Diagnoses "(nat \<times> string \<times> string) list"

definition diagnose :: "string list \<Rightarrow> display" where
  "diagnose symptoms =
    (let sset = tokens symptoms in
     if sset = {} then Message ''No symptoms entered.''
     else
       let sc = scores sset in
       if sc = [] then Message ''No matching disease found.''
       else
         let top = take 3 (sorted_reverse sc) in
         Diagnoses (map (\<lambda>(matches, disease). (matches, disease, specialist disease)) top))"

text \<open>The rows of a display; a message has none.\<close>

fun results :: "display \<Rightarrow> (nat \<times> string \<times> string) list" where
  "results (Message m) = []"
| "results (Diagnoses rs) = rs"

section \<open>The specification's wording, for comparison\<close>

text \<open>
  These definitions follow the specification, not the program. They are compared with the
  program's definitions above.

  The specification's normalization: trimmed, lower-cased, and every run of internal
  whitespace replaced by a single connector character. \<open>collapse prev s\<close> walks the string;
  \<open>prev\<close> tells whether the character before was whitespace.
\<close>

fun collapse :: "bool \<Rightarrow> string \<Rightarrow> string" where
  "collapse prev [] = []"
| "collapse prev (c # cs) =
     (if isspace c then (if prev then collapse True cs else CHR ''_'' # collapse True cs)
      else c # collapse False cs)"

definition spec_normalize :: "string \<Rightarrow> string" where
  "spec_normalize s = collapse False (lower (strip s))"

text \<open>The position of a disease in the declaration order of \<^verbatim>\<open>DISEASE_RULES\<close>, and the
  specification's ranking: match count descending, ties in declaration order.\<close>

definition declaration_index :: "string \<Rightarrow> nat" where
  "declaration_index d = length (takeWhile (\<lambda>(dis, rules). dis \<noteq> d) DISEASE_RULES)"

definition spec_ranked :: "(nat \<times> string \<times> string) list \<Rightarrow> bool" where
  "spec_ranked rs = sorted_wrt (\<lambda>(m1, d1, s1) (m2, d2, s2).
      m2 < m1 \<or> (m1 = m2 \<and> declaration_index d1 < declaration_index d2)) rs"

section \<open>Auxiliary predicate\<close>

text \<open>A string with no whitespace at either end.\<close>

definition trimmed :: "string \<Rightarrow> bool" where
  "trimmed t = (t = [] \<or> (\<not> isspace (hd t) \<and> \<not> isspace (last t)))"

section \<open>Properties\<close>

lemma of_char_space: "of_char c = (32::nat) \<longleftrightarrow> c = CHR '' ''"
proof -
  have "of_char c = (of_char (CHR '' '') :: nat) \<longleftrightarrow> c = CHR '' ''"
    by (rule of_char_eq_iff)
  then show ?thesis by simp
qed

lemma lower_char_idem: "lower_char (lower_char c) = lower_char c"
  by (simp add: lower_char_def Let_def)

lemma isspace_lower_char: "isspace (lower_char c) = isspace c"
  by (auto simp add: lower_char_def isspace_def Let_def)

lemma lower_char_space: "lower_char c = CHR '' '' \<longleftrightarrow> c = CHR '' ''"
proof -
  have "of_char (lower_char c) = (32::nat) \<longleftrightarrow> of_char c = (32::nat)"
    by (auto simp add: lower_char_def Let_def)
  then show ?thesis by (simp add: of_char_space)
qed

lemma lower_char_underscore: "lower_char (CHR ''_'') = CHR ''_''"
  by (simp add: lower_char_def)

lemma isspace_space: "isspace (CHR '' '')"
  by (simp add: isspace_def)

lemma trimmed_lstrip_nonempty: "lstrip s \<noteq> [] \<Longrightarrow> \<not> isspace (hd (lstrip s))"
  unfolding lstrip_def by (rule hd_dropWhile)

lemma rstrip_prefix: "\<exists>zs. s = rstrip s @ zs"
proof -
  have "rev s = takeWhile isspace (rev s) @ dropWhile isspace (rev s)" by simp
  then have "s = rev (dropWhile isspace (rev s)) @ rev (takeWhile isspace (rev s))"
    by (metis rev_append rev_rev_ident)
  then show ?thesis unfolding rstrip_def by blast
qed

lemma last_rstrip: "rstrip s \<noteq> [] \<Longrightarrow> \<not> isspace (last (rstrip s))"
  unfolding rstrip_def by (simp add: last_rev hd_dropWhile)

lemma hd_rstrip: "rstrip s \<noteq> [] \<Longrightarrow> hd (rstrip s) = hd s"
  using rstrip_prefix [of s] by (metis hd_append2)

lemma trimmed_strip: "trimmed (strip s)"
proof (cases "strip s = []")
  case True then show ?thesis by (simp add: trimmed_def)
next
  case False
  then have ne: "rstrip (lstrip s) \<noteq> []" by (simp add: strip_def)
  then have "lstrip s \<noteq> []" by (auto simp add: rstrip_def)
  then have "\<not> isspace (hd (lstrip s))" by (rule trimmed_lstrip_nonempty)
  with ne have "\<not> isspace (hd (strip s))" by (simp add: strip_def hd_rstrip)
  moreover from ne have "\<not> isspace (last (strip s))" by (simp add: strip_def last_rstrip)
  ultimately show ?thesis by (simp add: trimmed_def)
qed

lemma strip_trimmed: "trimmed t \<Longrightarrow> strip t = t"
proof (cases "t = []")
  case True then show ?thesis by (simp add: strip_def lstrip_def rstrip_def)
next
  case False
  assume "trimmed t"
  with False have h: "\<not> isspace (hd t)" and l: "\<not> isspace (last t)"
    by (simp_all add: trimmed_def)
  from False h have "lstrip t = t"
    by (cases t) (simp_all add: lstrip_def)
  moreover from False l have "rstrip t = t"
    by (cases "rev t") (simp_all add: rstrip_def last_rev [symmetric] hd_rev)
  ultimately show ?thesis by (simp add: strip_def)
qed

lemma finite_tokens: "finite (tokens xs)"
  by (simp add: tokens_def)

lemma distinct_disease_names: "distinct (map fst DISEASE_RULES)"
  by (simp add: DISEASE_RULES_def)

lemma set_sorted_reverse: "set (sorted_reverse xs) = set xs"
  by (simp add: sorted_reverse_def)

lemma length_sorted_reverse: "length (sorted_reverse xs) = length xs"
  by (simp add: sorted_reverse_def)

lemma sorted_reverse_descending: "sorted_wrt (\<lambda>a b. b \<le> a) (sorted_reverse xs)"
  by (simp add: sorted_reverse_def sorted_wrt_rev)

lemma distinct_sorted_reverse: "distinct (sorted_reverse xs) = distinct xs"
  by (simp add: sorted_reverse_def)

lemma sorted_reverse_strict:
  assumes "distinct xs"
  shows "sorted_wrt (\<lambda>a b. b < a) (sorted_reverse xs)"
proof -
  have "sorted_wrt (<) (sort_key (\<lambda>x. x) (rev xs))"
    using assms by (simp add: strict_sorted_iff)
  then show ?thesis
    by (simp add: sorted_reverse_def sorted_wrt_rev)
qed

lemma scores_mem:
  "(m, d) \<in> set (scores sset) \<longleftrightarrow>
     (\<exists>rules. (d, rules) \<in> set DISEASE_RULES \<and> m = card (sset \<inter> rules) \<and> 0 < m)"
  by (auto simp add: scores_def)

lemma distinct_scores: "distinct (scores sset)"
proof -
  have "distinct (map fst (filter (\<lambda>(dis, rules). card (sset \<inter> rules) > 0) DISEASE_RULES))"
    using distinct_disease_names by (rule distinct_map_filter)
  moreover have "map snd (scores sset) =
      map fst (filter (\<lambda>(dis, rules). card (sset \<inter> rules) > 0) DISEASE_RULES)"
    by (simp add: scores_def case_prod_unfold comp_def)
  ultimately have "distinct (map snd (scores sset))" by simp
  then show ?thesis by (simp add: distinct_map)
qed

lemma scores_empty_tokens: "scores {} = []"
  by (simp add: scores_def)

lemma results_diagnose:
  "results (diagnose xs) =
     map (\<lambda>(matches, disease). (matches, disease, specialist disease))
       (take 3 (sorted_reverse (scores (tokens xs))))"
  by (simp add: diagnose_def Let_def scores_empty_tokens sorted_reverse_def)

lemma results_in_scores:
  assumes "(m, d, sp) \<in> set (results (diagnose xs))"
  shows "(m, d) \<in> set (scores (tokens xs)) \<and> sp = specialist d"
proof -
  from assms obtain p where p: "p \<in> set (take 3 (sorted_reverse (scores (tokens xs))))"
      and eq: "(m, d, sp) = (case p of (matches, disease) \<Rightarrow> (matches, disease, specialist disease))"
    by (auto simp add: results_diagnose)
  from p have "p \<in> set (scores (tokens xs))"
    using set_sorted_reverse by (metis in_set_takeD)
  with eq show ?thesis by (cases p) simp
qed

text \<open>
  Claim C5. For every input list, each row that \<^verbatim>\<open>diagnose\<close> shows carries a match count
  equal to the number of elements of the intersection of the normalized input tokens
  with the symptom set that \<^verbatim>\<open>DISEASE_RULES\<close> gives for the row's disease.
\<close>

theorem match_count_is_intersection_size:
  assumes "(m, d, sp) \<in> set (results (diagnose xs))"
  shows "\<exists>rules. map_of DISEASE_RULES d = Some rules \<and> m = card (tokens xs \<inter> rules)"
proof -
  from results_in_scores [OF assms] obtain rules
    where r: "(d, rules) \<in> set DISEASE_RULES" and m: "m = card (tokens xs \<inter> rules)"
    by (auto simp add: scores_mem)
  from r have "map_of DISEASE_RULES d = Some rules"
    using distinct_disease_names by simp
  with m show ?thesis by blast
qed

theorem match_count_is_intersection_size_witness:
  "(2, ''flu'', ''General Physician'') \<in> set (results (diagnose [''fever'', ''cough'']))
   \<and> (\<exists>rules. map_of DISEASE_RULES ''flu'' = Some rules
         \<and> 2 = card (tokens [''fever'', ''cough''] \<inter> rules))"
proof -
  have h: "(2, ''flu'', ''General Physician'') \<in> set (results (diagnose [''fever'', ''cough'']))"
    by code_simp
  from match_count_is_intersection_size [OF h] h show ?thesis by blast
qed

text \<open>
  Claim C6. For every input list, \<^verbatim>\<open>diagnose\<close> shows at most three rows, and every row has
  a match count of at least 1.
\<close>

theorem result_bound:
  "length (results (diagnose xs)) \<le> 3 \<and> (\<forall>r \<in> set (results (diagnose xs)). 1 \<le> fst r)"
proof
  show "length (results (diagnose xs)) \<le> 3"
    by (simp add: results_diagnose)
next
  show "\<forall>r \<in> set (results (diagnose xs)). 1 \<le> fst r"
  proof
    fix r assume r: "r \<in> set (results (diagnose xs))"
    obtain m d sp where "r = (m, d, sp)" by (cases r) auto
    with r results_in_scores have "(m, d) \<in> set (scores (tokens xs))" by blast
    then have "0 < m" by (auto simp add: scores_mem)
    with \<open>r = (m, d, sp)\<close> show "1 \<le> fst r" by simp
  qed
qed

theorem result_bound_witness:
  "length (results (diagnose [''fever'', ''cough'', ''wheezing''])) \<le> 3
   \<and> (2, ''pneumonia'', ''Pulmonologist'') \<in> set (results (diagnose [''fever'', ''cough'', ''wheezing'']))
   \<and> (1::nat) \<le> fst (2::nat, ''pneumonia'', ''Pulmonologist'')"
proof -
  have h: "(2, ''pneumonia'', ''Pulmonologist'')
      \<in> set (results (diagnose [''fever'', ''cough'', ''wheezing'']))"
    by code_simp
  with result_bound [of "[''fever'', ''cough'', ''wheezing'']"] show ?thesis by blast
qed

lemma normalize_map:
  "normalize s = map (\<lambda>c. if c = CHR '' '' then CHR ''_'' else lower_char c) (strip s)"
  by (simp add: normalize_def replace_def lower_def lower_char_space)

lemma trimmed_normalize: "trimmed (normalize s)"
proof (cases "strip s = []")
  case True then show ?thesis by (simp add: normalize_map trimmed_def)
next
  case False
  with trimmed_strip [of s] have h: "\<not> isspace (hd (strip s))" and l: "\<not> isspace (last (strip s))"
    by (simp_all add: trimmed_def)
  from h l isspace_space have "hd (strip s) \<noteq> CHR '' ''" and "last (strip s) \<noteq> CHR '' ''"
    by auto
  with False h l show ?thesis
    by (simp add: normalize_map trimmed_def hd_map last_map isspace_lower_char)
qed

lemma lower_normalize: "lower (normalize s) = normalize s"
  by (simp add: normalize_map lower_def lower_char_idem lower_char_underscore)

lemma normalize_empty_iff: "normalize s = [] \<longleftrightarrow> strip s = []"
  by (simp add: normalize_map)

lemma no_space_normalize: "CHR '' '' \<notin> set (normalize s)"
proof
  assume "CHR '' '' \<in> set (normalize s)"
  then obtain c where c: "c \<in> set (strip s)"
      and eq: "CHR '' '' = (if c = CHR '' '' then CHR ''_'' else lower_char c)"
    unfolding normalize_map set_map by (rule imageE)
  show False
  proof (cases "c = CHR '' ''")
    case True with eq show False by simp
  next
    case False
    with eq have "lower_char c = CHR '' ''" by simp
    with False show False by (simp add: lower_char_space)
  qed
qed

lemma replace_normalize: "replace (CHR '' '') (CHR ''_'') (normalize s) = normalize s"
proof -
  have "map (\<lambda>c. if c = CHR '' '' then CHR ''_'' else c) (normalize s) = normalize s"
  proof (rule map_idI)
    fix c assume "c \<in> set (normalize s)"
    with no_space_normalize [of s] have "c \<noteq> CHR '' ''" by blast
    then show "(if c = CHR '' '' then CHR ''_'' else c) = c" by simp
  qed
  then show ?thesis by (simp add: replace_def)
qed

lemma empty_not_token: "[] \<notin> tokens xs"
proof
  assume "[] \<in> tokens xs"
  then obtain s where "strip s \<noteq> []" and "[] = normalize s"
    by (auto simp add: tokens_def)
  then show False by (simp add: normalize_map)
qed

text \<open>
  Claim C8. Normalization is idempotent: a string that is already a normalized token, one
  of the form \<^term>\<open>normalize s\<close>, is returned unchanged by \<^const>\<open>normalize\<close>.
\<close>

theorem normalize_idempotent: "normalize (normalize s) = normalize s"
proof -
  have "strip (normalize s) = normalize s"
    using trimmed_normalize by (rule strip_trimmed)
  then have "normalize (normalize s) = replace (CHR '' '') (CHR ''_'') (lower (normalize s))"
    by (simp add: normalize_def)
  then show ?thesis by (simp add: lower_normalize replace_normalize)
qed

text \<open>
  Claim C4, amended. For every raw input string, normalization trims leading and trailing
  whitespace, lower-cases every character and puts one connector character in the place of
  every single space character, one for one (a run of spaces becomes a run of connectors,
  and other whitespace inside the string is kept); the outcome has no whitespace at either
  end, no capital letter and no space. Strings empty after trimming are discarded and the
  tokens are collected into a set.
\<close>

theorem normalization_as_coded:
  "normalize s = map (\<lambda>c. if c = CHR '' '' then CHR ''_'' else lower_char c) (strip s)
   \<and> strip (normalize s) = normalize s
   \<and> lower (normalize s) = normalize s
   \<and> CHR '' '' \<notin> set (normalize s)
   \<and> tokens xs = normalize ` {s \<in> set xs. strip s \<noteq> []}
   \<and> [] \<notin> tokens xs"
proof -
  have a: "strip (normalize s) = normalize s"
    using trimmed_normalize by (rule strip_trimmed)
  have b: "tokens xs = normalize ` {s \<in> set xs. strip s \<noteq> []}"
    by (simp add: tokens_def)
  from normalize_map [of s] a lower_normalize [of s] no_space_normalize [of s] b
    empty_not_token [of xs]
  show ?thesis by (intro conjI)
qed

text \<open>
  Claim C4 as stated fails: the input \<^verbatim>\<open>"a  b"\<close> holds a run of two spaces, which the
  claim replaces by a single connector and the program by two.
\<close>

theorem normalize_run_counterexample:
  "normalize ''a  b'' = ''a__b'' \<and> spec_normalize ''a  b'' = ''a_b''
   \<and> normalize ''a  b'' \<noteq> spec_normalize ''a  b''"
proof -
  have a: "normalize ''a  b'' = ''a__b''" by code_simp
  have b: "spec_normalize ''a  b'' = ''a_b''" by code_simp
  from a b show ?thesis by simp
qed

lemma scores_empty_iff:
  "scores sset = [] \<longleftrightarrow> list_all (\<lambda>(dis, rules). card (sset \<inter> rules) = 0) DISEASE_RULES"
  by (simp add: scores_def filter_empty_conv list_all_iff case_prod_unfold)

lemma sorted_reverse_Nil_iff: "sorted_reverse xs = [] \<longleftrightarrow> xs = []"
  using length_sorted_reverse [of xs] by (metis length_0_conv)

lemma results_empty_iff: "results (diagnose xs) = [] \<longleftrightarrow> scores (tokens xs) = []"
  by (simp add: results_diagnose sorted_reverse_Nil_iff)

text \<open>
  Claim C7. \<^verbatim>\<open>diagnose\<close> has an outcome for every input list, the empty list included (it is
  a total function with no error branch), and it shows no rows exactly when normalization
  yields no tokens, where the message is \<^verbatim>\<open>No symptoms entered.\<close>, or when there are tokens
  and every disease scores zero, where the message is \<^verbatim>\<open>No matching disease found.\<close>; in
  every other case it shows a non-empty list of rows.
\<close>

theorem no_results_signals:
  "(tokens xs = {} \<longrightarrow> diagnose xs = Message ''No symptoms entered.'')
   \<and> (tokens xs \<noteq> {} \<and> list_all (\<lambda>(dis, rules). card (tokens xs \<inter> rules) = 0) DISEASE_RULES
        \<longrightarrow> diagnose xs = Message ''No matching disease found.'')
   \<and> (results (diagnose xs) = [] \<longleftrightarrow>
        tokens xs = {} \<or> list_all (\<lambda>(dis, rules). card (tokens xs \<inter> rules) = 0) DISEASE_RULES)
   \<and> (results (diagnose xs) \<noteq> [] \<longrightarrow> diagnose xs = Diagnoses (results (diagnose xs)))"
proof (intro conjI)
  show "tokens xs = {} \<longrightarrow> diagnose xs = Message ''No symptoms entered.''"
    by (simp add: diagnose_def)
  show "tokens xs \<noteq> {} \<and> list_all (\<lambda>(dis, rules). card (tokens xs \<inter> rules) = 0) DISEASE_RULES
        \<longrightarrow> diagnose xs = Message ''No matching disease found.''"
    by (simp add: diagnose_def scores_empty_iff)
  show "results (diagnose xs) = [] \<longleftrightarrow>
        tokens xs = {} \<or> list_all (\<lambda>(dis, rules). card (tokens xs \<inter> rules) = 0) DISEASE_RULES"
  proof (cases "tokens xs = {}")
    case True
    then show ?thesis by (simp add: results_empty_iff scores_empty_tokens)
  next
    case False
    then show ?thesis by (simp add: results_empty_iff scores_empty_iff)
  qed
  show "results (diagnose xs) \<noteq> [] \<longrightarrow> diagnose xs = Diagnoses (results (diagnose xs))"
    by (cases "diagnose xs") simp_all
qed


theorem no_results_signals_witness:
  "tokens [] = {} \<and> diagnose [] = Message ''No symptoms entered.''
   \<and> tokens ['' '', []] = {} \<and> diagnose ['' '', []] = Message ''No symptoms entered.''
   \<and> tokens [''xyz_unknown_symptom''] \<noteq> {}
   \<and> list_all (\<lambda>(dis, rules). card (tokens [''xyz_unknown_symptom''] \<inter> rules) = 0) DISEASE_RULES
   \<and> diagnose [''xyz_unknown_symptom''] = Message ''No matching disease found.''
   \<and> results (diagnose [''red eyes'', ''itchy eyes'']) \<noteq> []
   \<and> diagnose [''red eyes'', ''itchy eyes''] = Diagnoses (results (diagnose [''red eyes'', ''itchy eyes'']))"
proof -
  have h1: "tokens [] = {}" by (simp add: tokens_def)
  have h2: "tokens ['' '', []] = {}" by code_simp
  have h3: "tokens [''xyz_unknown_symptom''] \<noteq> {}"
    by (simp add: tokens_def strip_def lstrip_def rstrip_def isspace_def)
  have h4: "list_all (\<lambda>(dis, rules). card (tokens [''xyz_unknown_symptom''] \<inter> rules) = 0) DISEASE_RULES"
    by code_simp
  have h5: "results (diagnose [''red eyes'', ''itchy eyes'']) \<noteq> []"
    by code_simp
  note a = no_results_signals [of "[]"]
  note b = no_results_signals [of "['' '', []]"]
  note c = no_results_signals [of "[''xyz_unknown_symptom'']"]
  note d = no_results_signals [of "[''red eyes'', ''itchy eyes'']"]
  from a h1 have r1: "diagnose [] = Message ''No symptoms entered.''" by blast
  from b h2 have r2: "diagnose ['' '', []] = Message ''No symptoms entered.''" by blast
  from c h3 h4 have r3: "diagnose [''xyz_unknown_symptom''] = Message ''No matching disease found.''"
    by blast
  from d h5 have r4: "diagnose [''red eyes'', ''itchy eyes''] =
      Diagnoses (results (diagnose [''red eyes'', ''itchy eyes'']))" by blast
  from h1 r1 h2 r2 h3 h4 r3 h5 r4 show ?thesis by (intro conjI)
qed

lemma finite_all_rules: "finite (\<Union> (set (map snd DISEASE_RULES)))"
  by (simp add: DISEASE_RULES_def)

text \<open>
  Claim C9. \<^verbatim>\<open>ALL_SYMPTOMS\<close>, the list printed on start, holds exactly the symptom tokens that
  occur in the entries of \<^verbatim>\<open>DISEASE_RULES\<close>, each once, in ascending lexical order.
\<close>

theorem all_symptoms_sorted_distinct:
  "set ALL_SYMPTOMS = \<Union> (snd ` set DISEASE_RULES) \<and> distinct ALL_SYMPTOMS \<and> sorted ALL_SYMPTOMS"
  using finite_all_rules by (simp add: ALL_SYMPTOMS_def)

lemma ALL_SYMPTOMS_value:
  "ALL_SYMPTOMS = [''abdominal_pain'', ''blurred_vision'', ''body_ache'', ''chest_pain'',
  ''chronic_cough'', ''cough'', ''diarrhea'', ''dizziness'',
  ''eye_discharge'', ''fatigue'', ''fever'', ''frequent_urination'',
  ''headache'', ''itchy_eyes'', ''joint_pain'', ''loss_appetite'',
  ''loss_interest'', ''loss_smell'', ''nausea'', ''night_sweats'',
  ''red_eyes'', ''runny_nose'', ''sadness'', ''shortness_breath'',
  ''sleep_disturbance'', ''sore_throat'', ''stiffness'', ''swelling'',
  ''thirst'', ''vomiting'', ''weight_loss'', ''wheezing'']"
  by code_simp

lemma diagnose_fever_cough:
  "diagnose [''fever'', ''cough''] = Diagnoses [(2, ''pneumonia'', ''Pulmonologist''),
     (2, ''flu'', ''General Physician''), (2, ''covid-19'', ''Infectious Disease Specialist'')]"
  by code_simp

lemma scores_headache_blurred:
  "scores (tokens [''headache'', ''blurred vision'']) =
     [(2, ''migraine''), (1, ''diabetes''), (2, ''hypertension'')]"
  by code_simp

lemma diagnose_headache_blurred:
  "diagnose [''headache'', ''blurred vision''] = Diagnoses [(2, ''migraine'', ''Neurologist''),
     (2, ''hypertension'', ''Cardiologist''), (1, ''diabetes'', ''Endocrinologist'')]"
  by code_simp

lemma declaration_index_flu: "declaration_index ''flu'' = 0"
  by code_simp

lemma declaration_index_pneumonia: "declaration_index ''pneumonia'' = 4"
  by code_simp

section \<open>Ranking\<close>

text \<open>
  Claim C1 as stated fails: for the input \<^verbatim>\<open>["fever", "cough"]\<close> pneumonia and flu both
  score 2 and pneumonia is shown first, although flu is declared before it in
  \<^verbatim>\<open>DISEASE_RULES\<close>.
\<close>

theorem declaration_order_counterexample:
  "\<not> spec_ranked (results (diagnose [''fever'', ''cough'']))"
proof -
  have "\<not> declaration_index ''pneumonia'' < declaration_index ''flu''"
    by (simp add: declaration_index_flu)
  then show ?thesis
    by (simp add: diagnose_fever_cough spec_ranked_def)
qed

text \<open>
  Claim C1, amended. For every input list the rows shown are in descending order of match
  count, and rows with equal match count are in descending order of disease name (string
  comparison by code point): the list is sorted on the pairs of count and name, reversed.
\<close>

theorem ranking_by_count_then_name:
  "sorted_wrt (\<lambda>(m1, d1, s1) (m2, d2, s2). m2 < m1 \<or> (m1 = m2 \<and> d2 < d1))
     (results (diagnose xs))"
proof -
  let ?top = "take 3 (sorted_reverse (scores (tokens xs)))"
  have "sorted_wrt (\<lambda>a b. b < a) (sorted_reverse (scores (tokens xs)))"
    using distinct_scores by (rule sorted_reverse_strict)
  then have "sorted_wrt (\<lambda>a b. b < a) ?top"
    by (rule sorted_wrt_take)
  then have "sorted_wrt (\<lambda>(m1, d1) (m2, d2). m2 < m1 \<or> (m1 = m2 \<and> d2 < d1)) ?top"
    by (rule sorted_wrt_mono_rel [rotated]) (auto simp add: less_prod_def)
  then show ?thesis
    by (simp add: results_diagnose sorted_wrt_map case_prod_unfold)
qed

section \<open>The two scenarios\<close>

text \<open>
  Claim C2 as stated fails: for the input \<^verbatim>\<open>["headache", "blurred vision"]\<close> migraine is
  not a candidate with match count 1 (it matches both tokens), and the first row is not
  hypertension.
\<close>

theorem headache_blurred_counterexample:
  "(1, ''migraine'') \<notin> set (scores (tokens [''headache'', ''blurred vision'']))
   \<and> fst (snd (hd (results (diagnose [''headache'', ''blurred vision''])))) \<noteq> ''hypertension''"
  by (simp add: scores_headache_blurred diagnose_headache_blurred)

text \<open>
  Claim C2, amended. For the input \<^verbatim>\<open>["headache", "blurred vision"]\<close> the candidates are
  migraine with match count 2, diabetes with match count 1 and hypertension with match
  count 2; migraine is shown first, hypertension second and diabetes third.
\<close>

theorem headache_blurred_as_coded:
  "scores (tokens [''headache'', ''blurred vision'']) =
     [(2, ''migraine''), (1, ''diabetes''), (2, ''hypertension'')]
   \<and> diagnose [''headache'', ''blurred vision''] = Diagnoses [(2, ''migraine'', ''Neurologist''),
     (2, ''hypertension'', ''Cardiologist''), (1, ''diabetes'', ''Endocrinologist'')]"
  using scores_headache_blurred diagnose_headache_blurred by (rule conjI)

text \<open>
  Claim C3 as stated fails: for the input \<^verbatim>\<open>["fever", "cough"]\<close> the first row is not flu.
\<close>

theorem fever_cough_counterexample:
  "fst (snd (hd (results (diagnose [''fever'', ''cough''])))) \<noteq> ''flu''"
  by (simp add: diagnose_fever_cough)

text \<open>
  Claim C3, amended. For the input \<^verbatim>\<open>["fever", "cough"]\<close> the rows shown are pneumonia,
  flu and covid-19, in this order, each with match count 2.
\<close>

theorem fever_cough_as_coded:
  "diagnose [''fever'', ''cough''] = Diagnoses [(2, ''pneumonia'', ''Pulmonologist''),
     (2, ''flu'', ''General Physician''), (2, ''covid-19'', ''Infectious Disease Specialist'')]"
  by (rule diagnose_fever_cough)

section \<open>Dependence on the token set\<close>

text \<open>
  Claim C10. The outcome of \<^verbatim>\<open>diagnose\<close> depends only on the set of normalized tokens of
  its input: two input lists with the same token set have the same outcome, and so have
  two lists with the same elements, whatever their order and repetitions.
\<close>

theorem depends_only_on_tokens:
  "(tokens xs = tokens ys \<longrightarrow> diagnose xs = diagnose ys)
   \<and> (set xs = set ys \<longrightarrow> diagnose xs = diagnose ys)"
proof -
  have a: "diagnose xs = diagnose ys" if "tokens xs = tokens ys"
    using that by (simp add: diagnose_def)
  have "tokens xs = tokens ys" if "set xs = set ys"
    using that by (simp add: tokens_def)
  with a show ?thesis by blast
qed

theorem depends_only_on_tokens_witness:
  "set [''fever'', ''cough''] = set [''cough'', ''fever'', ''cough'']
   \<and> diagnose [''fever'', ''cough''] = diagnose [''cough'', ''fever'', ''cough'']
   \<and> tokens ['' Fever'', ''COUGH ''] = tokens [''cough'', ''fever'']
   \<and> diagnose ['' Fever'', ''COUGH ''] = diagnose [''cough'', ''fever'']"
proof -
  have h1: "set [''fever'', ''cough''] = set [''cough'', ''fever'', ''cough'']"
    by auto
  have h2: "tokens ['' Fever'', ''COUGH ''] = tokens [''cough'', ''fever'']"
    by code_simp
  from h1 depends_only_on_tokens [of "[''fever'', ''cough'']" "[''cough'', ''fever'', ''cough'']"]
  have r1: "diagnose [''fever'', ''cough''] = diagnose [''cough'', ''fever'', ''cough'']"
    by blast
  from h2 depends_only_on_tokens [of "['' Fever'', ''COUGH '']" "[''cough'', ''fever'']"]
  have r2: "diagnose ['' Fever'', ''COUGH ''] = diagnose [''cough'', ''fever'']"
    by blast
  from h1 r1 h2 r2 show ?thesis by (intro conjI)
qed

end
